theory Spec2Isabelle
  imports Complex_Main
begin

section \<open>Errors\<close>

text \<open>
  The Python exceptions the modelled functions can raise. The helpers of \<open>Assert\<close>
  (utils.py) are plain \<open>assert\<close> statements, so a failed check is an AssertionError.
  ValidationError is the error of the generic config framework.
\<close>

datatype error =
    AssertionError | TypeError | ValueError | ZeroDivisionError | OverflowError | ValidationError

section \<open>Floating-point numbers\<close>

text \<open>
  Python's \<open>round\<close> of a float with no second argument returns the nearest integer,
  a tie going to the even one.
\<close>

definition py_round :: "real \<Rightarrow> int" where
  "py_round x =
     (let f = \<lfloor>x\<rfloor>; d = x - of_int f
      in if d < 1 / 2 then f else if 1 / 2 < d then f + 1
         else if even f then f else f + 1)"

text \<open>
  A Python float is an IEEE 754 binary64 number: a finite value, an infinity or NaN.
  A finite value is given by the real number it stands for; the sign of a zero is not
  modelled, no result below depends on it.
\<close>

datatype f64 = Fin real | PInf | NInf | NaN

text \<open>
  Rounding of a real number to 53 significant bits, to nearest and to even at a tie.
  For \<open>2 ^ e \<le> \<bar>x\<bar> < 2 ^ (e + 1)\<close> the neighbouring values are \<open>2 ^ (e - 52)\<close>
  apart; below \<open>2 ^ - 1022\<close> (the subnormal range) the spacing stays \<open>2 ^ - 1074\<close>.
\<close>

definition round53 :: "real \<Rightarrow> real" where
  "round53 x =
     (if x = 0 then 0
      else let e = max \<lfloor>log 2 \<bar>x\<bar>\<rfloor> (- 1022); q = 2 powr (of_int e - 52)
           in of_int (py_round (x / q)) * q)"

text \<open>
  The result of an arithmetic operation is its exact result rounded; a rounded result of
  magnitude \<open>2 ^ 1024\<close> or more is an infinity.
\<close>

definition to_f64 :: "real \<Rightarrow> f64" where
  "to_f64 x =
     (let r = round53 x
      in if 2 ^ 1024 \<le> r then PInf else if r \<le> - (2 ^ 1024) then NInf else Fin r)"

text \<open>
  The conversion of an integer to a float (as in \<open>float * int\<close>) rounds; Python raises
  OverflowError when the integer is too large for a float.
\<close>

definition f64_of_int :: "int \<Rightarrow> error + real" where
  "f64_of_int n =
     (case to_f64 (of_int n) of
        Fin r \<Rightarrow> Inr r | PInf \<Rightarrow> Inl OverflowError | NInf \<Rightarrow> Inl OverflowError
      | NaN \<Rightarrow> Inl OverflowError)"

definition f64_mul :: "real \<Rightarrow> real \<Rightarrow> f64" where
  "f64_mul x y = to_f64 (x * y)"

text \<open>
  The sum of a float, possibly infinite, and a finite float; the quotient of a finite
  float by a float. Array arithmetic does not raise on a zero divisor.
\<close>

fun f64_add :: "f64 \<Rightarrow> real \<Rightarrow> f64" where
  "f64_add (Fin a) x = to_f64 (a + x)"
| "f64_add PInf x = PInf"
| "f64_add NInf x = NInf"
| "f64_add NaN x = NaN"

fun f64_div :: "real \<Rightarrow> f64 \<Rightarrow> f64" where
  "f64_div x (Fin y) =
     (if y = 0 then (if x = 0 then NaN else if 0 < x then PInf else NInf)
      else to_f64 (x / y))"
| "f64_div x PInf = Fin 0"
| "f64_div x NInf = Fin 0"
| "f64_div x NaN = NaN"

fun f64_gt_zero :: "f64 \<Rightarrow> bool" where
  "f64_gt_zero (Fin y) = (0 < y)"
| "f64_gt_zero PInf = True"
| "f64_gt_zero NInf = False"
| "f64_gt_zero NaN = False"

text \<open>
  \<open>round\<close> of a float: OverflowError on an infinity, ValueError on NaN.
\<close>

definition py_round_f64 :: "f64 \<Rightarrow> error + int" where
  "py_round_f64 v =
     (case v of
        Fin r \<Rightarrow> Inr (py_round r) | PInf \<Rightarrow> Inl OverflowError | NInf \<Rightarrow> Inl OverflowError
      | NaN \<Rightarrow> Inl ValueError)"

section \<open>utils.normalize\_probabilities\<close>

text \<open>
  \<^verbatim>\<open>
  def normalize_probabilities(p, return_array=False):
      p = np.array(p)
      Assert.custom(lambda x: np.all(x >= 0), p)
      p_sum = p.sum()
      Assert.gt(p_sum, 0)
      out = p / p_sum
      return out if return_array else out.tolist()
  \<close>
  The list form of the result (\<open>return_array = False\<close>) is the one modelled; it is
  the one the dataset configuration uses. The function is given twice. In
  \<open>normalize_probabilities\<close> the floating-point numbers of the source are idealised as
  real numbers: sums and quotients are exact.
\<close>

definition normalize_probabilities :: "real list \<Rightarrow> error + real list" where
  "normalize_probabilities p =
     (if \<not> list_all (\<lambda>x. x \<ge> 0) p then Inl AssertionError
      else let p_sum = sum_list p in
        if \<not> p_sum > 0 then Inl AssertionError
        else Inr (map (\<lambda>x. x / p_sum) p))"

text \<open>
  In \<open>normalize_probabilities_f64\<close> the arithmetic is that of binary64, on a list of
  finite floats. The order in which \<open>p.sum()\<close> adds the elements belongs to numpy and is
  a parameter; numpy adds an array of fewer than 8 elements from left to right, which is
  \<open>sequential_sum\<close>.
\<close>

definition sequential_sum :: "real list \<Rightarrow> f64" where
  "sequential_sum p = foldl f64_add (Fin 0) p"

definition normalize_probabilities_f64 :: "(real list \<Rightarrow> f64) \<Rightarrow> real list \<Rightarrow> error + f64 list" where
  "normalize_probabilities_f64 np_sum p =
     (if \<not> list_all (\<lambda>x. x \<ge> 0) p then Inl AssertionError
      else let p_sum = np_sum p in
        if \<not> f64_gt_zero p_sum then Inl AssertionError
        else Inr (map (\<lambda>x. f64_div x p_sum) p))"

section \<open>Sampling configuration, parameters and data (data/dataset/config.py)\<close>

text \<open>
  \<open>SamplingConfig\<close> has the single field \<open>seed\<close>; \<open>SamplingParameters\<close> the single field
  \<open>num_samples\<close>. Python integers are unbounded, so both are \<open>int\<close>.
\<close>

record SamplingConfig =
  seed :: int

record SamplingParameters =
  num_samples :: int

text \<open>
  Of the \<open>Distributed\<close> object only \<open>distributed.config.world_size\<close> is read here.
\<close>

record DistributedConfig =
  world_size :: int

record Distributed =
  distributed_config :: DistributedConfig

text \<open>
  The field \<open>_rank_counter\<close> is declared as
  \<^verbatim>\<open>_rank_counter: typing.Iterator[int] = itertools.count\<close>:
  its default is the class \<open>itertools.count\<close> itself, not an instance of it. A value
  of the annotated type is an iterator object, here a counter with its next value.
\<close>

datatype rank_counter =
    ItertoolsCountClass
  | CountIterator int

record SamplingData =
  config :: SamplingConfig
  parameters :: SamplingParameters
  cache_directory :: "string option"
  distributed :: Distributed
  dataset_name :: string
  rank_counter :: rank_counter

text \<open>
  Modelled from the spec: the generic config framework (\<open>fast_llm.config\<close>: \<open>to_dict\<close>,
  \<open>from_dict\<close> with \<open>UpdateType.update\<close>) is not part of the sources. The spec describes
  the merge as "update only the explicitly-set fields": an override is a record of
  optional fields, its dictionary holds the fields that are set, and the merge replaces
  exactly those in the base.
\<close>

record SamplingConfig_update =
  update_seed :: "int option"

definition to_dict :: "SamplingConfig_update \<Rightarrow> (string \<rightharpoonup> int)" where
  "to_dict u = (case update_seed u of None \<Rightarrow> Map.empty | Some s \<Rightarrow> [''seed'' \<mapsto> s])"

definition from_dict_update :: "SamplingConfig \<Rightarrow> (string \<rightharpoonup> int) \<Rightarrow> SamplingConfig" where
  "from_dict_update base d =
     (case d ''seed'' of None \<Rightarrow> base | Some s \<Rightarrow> base\<lparr>seed := s\<rparr>)"

text \<open>
  \<^verbatim>\<open>
  def update_config(self, update: SamplingConfig):
      return dataclasses.replace(
          self, config=self.config.from_dict(self.config, update.to_dict(), update_type=UpdateType.update)
      )
  \<close>
  \<open>dataclasses.replace\<close> builds a new object whose other fields are those of \<open>self\<close>.
\<close>

definition update_config :: "SamplingData \<Rightarrow> SamplingConfig_update \<Rightarrow> SamplingData" where
  "update_config self u = self\<lparr>config := from_dict_update (config self) (to_dict u)\<rparr>"

text \<open>
  \<^verbatim>\<open>
  def get_next_rank(self) -> int:
      return next(self._rank_counter()) % self.distributed.config.world_size
  \<close>
  The field is called before \<open>next\<close> is applied. Calling the class \<open>itertools.count\<close>
  makes a new counter that starts at 0, so \<open>next\<close> yields 0 and the new counter is
  dropped; calling an iterator object raises TypeError. Nothing is stored in either case:
  the object after the call is the object before it.
\<close>

definition py_mod :: "int \<Rightarrow> int \<Rightarrow> error + int" where
  "py_mod a b = (if b = 0 then Inl ZeroDivisionError else Inr (a mod b))"

definition get_next_rank :: "SamplingData \<Rightarrow> (error + int) \<times> SamplingData" where
  "get_next_rank self =
     (case rank_counter self of
        CountIterator c \<Rightarrow> (Inl TypeError, self)
      | ItertoolsCountClass \<Rightarrow>
          (py_mod 0 (world_size (distributed_config (distributed self))), self))"

text \<open>The results of \<open>k\<close> successive calls on one object.\<close>

fun get_next_rank_calls :: "nat \<Rightarrow> SamplingData \<Rightarrow> (error + int) list" where
  "get_next_rank_calls 0 self = []"
| "get_next_rank_calls (Suc k) self =
     (case get_next_rank self of (r, self') \<Rightarrow> r # get_next_rank_calls k self')"

section \<open>Construction-time validation\<close>

text \<open>
  Modelled from the spec: the base class \<open>Config\<close> is not part of the sources. Its
  validation runs the \<open>valid=\<close> check declared on each field and validates nested
  configurations; a class adds checks of its own by overriding \<open>_validate\<close>. The
  checks of a class are given as a list of predicates on the object.
\<close>

definition Config_validate :: "('c \<Rightarrow> bool) list \<Rightarrow> 'c \<Rightarrow> error + 'c" where
  "Config_validate checks self =
     (if list_all (\<lambda>chk. chk self) checks then Inr self else Inl ValidationError)"

text \<open>A validation of nested datasets that accepts every dataset, for concrete examples.\<close>

definition always_valid :: "'d \<Rightarrow> bool" where
  "always_valid d = True"

section \<open>Indexed datasets and slices\<close>

text \<open>
  Modelled from the spec: the classes \<open>IndexedDataset\<close> and \<open>DatasetSlice\<close>
  (\<open>fast_llm.data.dataset.indexed\<close>) are not part of the sources. An indexed corpus has
  a name and a known length and gives random access to its samples; a slice built with
  bounds \<open>lo\<close>, \<open>hi\<close> has length \<open>hi - lo\<close> and its element \<open>i\<close> is element \<open>lo + i\<close> of
  the corpus, an IndexError outside \<open>0 \<le> i < hi - lo\<close>.
\<close>

record 'a IndexedDataset =
  indexed_name :: string
  samples :: "'a list"

definition len :: "'a IndexedDataset \<Rightarrow> int" where
  "len d = int (length (samples d))"

record 'a DatasetSlice =
  slice_name :: string
  slice_dataset :: "'a IndexedDataset"
  slice_lo :: int
  slice_hi :: int

definition slice_len :: "'a DatasetSlice \<Rightarrow> int" where
  "slice_len s = slice_hi s - slice_lo s"

definition slice_get :: "'a DatasetSlice \<Rightarrow> int \<Rightarrow> 'a option" where
  "slice_get s i =
     (if 0 \<le> i \<and> i < slice_hi s - slice_lo s \<and> 0 \<le> slice_lo s + i
         \<and> slice_lo s + i < len (slice_dataset s)
      then Some (samples (slice_dataset s) ! nat (slice_lo s + i)) else None)"

text \<open>
  \<open>DatasetSliceConfig\<close> declares the fields \<open>dataset\<close>, \<open>begin\<close> and \<open>end\<close>; none of
  them has a \<open>valid=\<close> check and the class does not override \<open>_validate\<close>, so its
  validation is that of the base class on the nested dataset alone.
\<close>

record 'd DatasetSliceConfig =
  dataset :: 'd
  slice_begin :: real
  slice_end :: real

definition DatasetSliceConfig_validate ::
  "('d \<Rightarrow> bool) \<Rightarrow> 'd DatasetSliceConfig \<Rightarrow> error + 'd DatasetSliceConfig" where
  "DatasetSliceConfig_validate nested self =
     Config_validate [\<lambda>c. nested (dataset c)] self"

text \<open>
  \<^verbatim>\<open>
  def _build[T: DatasetSlice](self, cls: type[T]) -> T:
      dataset = self.dataset.build()
      size = len(dataset)
      return cls(
          f"{dataset.name}_{self.begin}_{self.end}",
          dataset,
          round(self.begin * size),
          round(self.end * size),
      )
  \<close>
  The build of the nested dataset and the printing of a float are parameters. \<open>begin\<close>
  and \<open>end\<close> are finite floats; each product is a binary64 product of the float and
  the size converted to a float.
\<close>

definition DatasetSliceConfig_build ::
  "('d \<Rightarrow> 'a IndexedDataset) \<Rightarrow> (real \<Rightarrow> string) \<Rightarrow> 'd DatasetSliceConfig
     \<Rightarrow> error + 'a DatasetSlice" where
  "DatasetSliceConfig_build build str self =
     (let ds = build (dataset self); size = len ds
      in case f64_of_int size of
           Inl e \<Rightarrow> Inl e
         | Inr fsize \<Rightarrow>
             (case py_round_f64 (f64_mul (slice_begin self) fsize) of
                Inl e \<Rightarrow> Inl e
              | Inr lo \<Rightarrow>
                  (case py_round_f64 (f64_mul (slice_end self) fsize) of
                     Inl e \<Rightarrow> Inl e
                   | Inr hi \<Rightarrow>
                       Inr \<lparr>slice_name = indexed_name ds @ ''_'' @ str (slice_begin self)
                                           @ ''_'' @ str (slice_end self),
                            slice_dataset = ds, slice_lo = lo, slice_hi = hi\<rparr>)))"

section \<open>Parameter override\<close>

text \<open>
  \<^verbatim>\<open>
  def build_and_sample(self, data: SamplingData) -> SampledDataset:
      return self.dataset.build_and_sample(data.update_config(self.sampling))
  \<close>
  The resolution of the wrapped dataset is a parameter.
\<close>

record 'd SampledDatasetUpdateConfig =
  sampling :: SamplingConfig_update
  update_dataset :: 'd

definition SampledDatasetUpdateConfig_build_and_sample ::
  "('d \<Rightarrow> SamplingData \<Rightarrow> 'r) \<Rightarrow> 'd SampledDatasetUpdateConfig \<Rightarrow> SamplingData \<Rightarrow> 'r" where
  "SampledDatasetUpdateConfig_build_and_sample build_and_sample self data =
     build_and_sample (update_dataset self) (update_config data (sampling self))"

section \<open>Blended datasets\<close>

record 'd BlendedDatasetConfig =
  name :: string
  datasets :: "'d list"
  weights :: "real list"
  legacy :: bool

text \<open>
  \<^verbatim>\<open>
  def _validate(self) -> None:
      self.weights = normalize_probabilities(self.weights)
      super()._validate()
      Assert.geq(len(self.datasets), 2)
      Assert.eq(len(self.datasets), len(self.weights))
  \<close>
  No field of the class declares a \<open>valid=\<close> check, so the base validation is that of
  the nested datasets.
\<close>

definition BlendedDatasetConfig_validate ::
  "('d \<Rightarrow> bool) \<Rightarrow> 'd BlendedDatasetConfig \<Rightarrow> error + 'd BlendedDatasetConfig" where
  "BlendedDatasetConfig_validate nested self =
     (case normalize_probabilities (weights self) of
        Inl e \<Rightarrow> Inl e
      | Inr w \<Rightarrow>
          (case Config_validate [\<lambda>c. list_all nested (datasets c)] (self\<lparr>weights := w\<rparr>) of
             Inl e \<Rightarrow> Inl e
           | Inr self' \<Rightarrow>
               if \<not> length (datasets self') \<ge> 2 then Inl AssertionError
               else if \<not> length (datasets self') = length (weights self') then Inl AssertionError
               else Inr self'))"

text \<open>
  The sample count requested of one branch:
  \<^verbatim>\<open>
  math.ceil(weight * (num_samples + 5 * (num_samples * (1 - weight)) ** 0.5))
      if self.legacy
      else math.ceil(weight * num_samples) + 1
  \<close>
  In Python a negative float raised to the power 0.5 is a complex number, and
  \<open>math.ceil\<close> of a complex number raises TypeError. \<open>branch_num_samples\<close> is this
  expression over exact arithmetic: the floats are idealised as real numbers, the
  products, the sum and the square root are exact.
\<close>

definition branch_num_samples :: "bool \<Rightarrow> real \<Rightarrow> int \<Rightarrow> error + int" where
  "branch_num_samples lg weight n =
     (if lg then
        (if of_int n * (1 - weight) < 0 then Inl TypeError
         else Inr \<lceil>weight * (of_int n + 5 * sqrt (of_int n * (1 - weight)))\<rceil>)
      else Inr (\<lceil>weight * of_int n\<rceil> + 1))"

text \<open>
  The sampling data handed to branch \<open>i\<close> (\<open>sdata\<close> is the argument \<open>sampling\<close> of the
  source): \<open>dataclasses.replace\<close> of it with new
  \<open>parameters\<close> and a copy of \<open>config\<close> whose seed is
  \<^verbatim>\<open>sampling.config.seed + i * (0 if self.legacy else 697)\<close>.
  The arithmetic of the sample count is the parameter \<open>count\<close>, so that what is said
  of the seeds and of the order of the branches holds whatever the arithmetic is.
\<close>

definition branch_sampling ::
  "(bool \<Rightarrow> real \<Rightarrow> int \<Rightarrow> error + int) \<Rightarrow> bool \<Rightarrow> SamplingData \<Rightarrow> nat \<Rightarrow> real
     \<Rightarrow> error + SamplingData" where
  "branch_sampling count lg sdata i weight =
     (case count lg weight (num_samples (parameters sdata)) of
        Inl e \<Rightarrow> Inl e
      | Inr n \<Rightarrow>
          Inr (sdata\<lparr>parameters := (parameters sdata)\<lparr>num_samples := n\<rparr>,
                         config := (config sdata)\<lparr>seed := seed (config sdata)
                                       + int i * (if lg then 0 else 697)\<rparr>\<rparr>))"

text \<open>
  The list comprehension of \<open>build_and_sample\<close> over
  \<open>enumerate(zip(self.datasets, self.weights, strict=True))\<close>, giving for each branch
  the dataset and the sampling data it is resolved with. \<open>strict=True\<close> raises
  ValueError when one list ends before the other. The resolution of a branch itself
  (\<open>dataset.build_and_sample\<close>) and the class \<open>BlendedDataset\<close> are not part of the
  sources.
\<close>

fun branch_requests ::
  "(bool \<Rightarrow> real \<Rightarrow> int \<Rightarrow> error + int) \<Rightarrow> bool \<Rightarrow> SamplingData \<Rightarrow> nat \<Rightarrow> 'd list
     \<Rightarrow> real list \<Rightarrow> error + ('d \<times> SamplingData) list" where
  "branch_requests count lg sdata i [] [] = Inr []"
| "branch_requests count lg sdata i (d # ds) (w # ws) =
     (case branch_sampling count lg sdata i w of
        Inl e \<Rightarrow> Inl e
      | Inr s \<Rightarrow>
          (case branch_requests count lg sdata (Suc i) ds ws of
             Inl e \<Rightarrow> Inl e
           | Inr rs \<Rightarrow> Inr ((d, s) # rs)))"
| "branch_requests count lg sdata i _ _ = Inl ValueError"

definition BlendedDatasetConfig_build_and_sample ::
  "(bool \<Rightarrow> real \<Rightarrow> int \<Rightarrow> error + int) \<Rightarrow> 'd BlendedDatasetConfig \<Rightarrow> SamplingData
     \<Rightarrow> error + ('d \<times> SamplingData) list" where
  "BlendedDatasetConfig_build_and_sample count self sdata =
     branch_requests count (legacy self) sdata 0 (datasets self) (weights self)"


section \<open>Properties of the floating-point model\<close>

lemma py_round_of_int: "py_round (of_int k) = k"
  by (simp add: py_round_def)

lemma py_round_near: "\<bar>of_int (py_round x) - x\<bar> \<le> 1 / 2"
  unfolding py_round_def Let_def by (auto; linarith)

lemma py_round_tie: "\<bar>of_int (py_round x) - x\<bar> < 1 / 2 \<or> even (py_round x)"
  unfolding py_round_def Let_def by (auto; linarith)

lemma round53_exponent:
  assumes "2 powr of_int e \<le> \<bar>x\<bar>" and "\<bar>x\<bar> < 2 powr (of_int e + 1)" and "- 1022 \<le> e"
  shows "round53 x = of_int (py_round (x / 2 powr (of_int e - 52))) * 2 powr (of_int e - 52)"
proof -
  have "(0::real) < 2 powr of_int e"
    by simp
  then have pos: "0 < \<bar>x\<bar>"
    using assms(1) by linarith
  then have "\<lfloor>log 2 \<bar>x\<bar>\<rfloor> = e"
    using assms(1,2) by (simp add: floor_log_eq_powr_iff)
  then show ?thesis
    using pos assms(3) by (simp add: round53_def Let_def max_def)
qed

lemma round53_multiple:
  assumes "2 powr of_int e \<le> \<bar>x\<bar>" and "\<bar>x\<bar> < 2 powr (of_int e + 1)" and "- 1022 \<le> e"
    and "x = of_int m * 2 powr (of_int e - 52)"
  shows "round53 x = x"
proof -
  have "x / 2 powr (of_int e - 52) = of_int m"
    using assms(4) by simp
  then show ?thesis
    using round53_exponent [OF assms(1-3)] assms(4) by (simp add: py_round_of_int)
qed

lemma round53_of_int:
  assumes "\<bar>n\<bar> < 2 ^ 53"
  shows "round53 (of_int n) = of_int n"
proof (cases "n = 0")
  case True
  then show ?thesis by (simp add: round53_def)
next
  case False
  define x :: real where "x = of_int n"
  define e where "e = \<lfloor>log 2 \<bar>x\<bar>\<rfloor>"
  have x1: "1 \<le> \<bar>x\<bar>"
    using False by (simp add: x_def flip: of_int_abs)
  have x53: "\<bar>x\<bar> < 2 ^ 53"
  proof -
    have "real_of_int \<bar>n\<bar> < real_of_int (2 ^ 53)"
      using assms by (simp only: of_int_less_iff)
    then show ?thesis by (simp add: x_def)
  qed
  have e0: "0 \<le> e"
    using x1 by (simp add: e_def)
  have "log 2 \<bar>x\<bar> < 53"
    using x1 x53 by (simp add: log_less_iff powr_numeral)
  then have e52: "e \<le> 52"
    unfolding e_def by linarith
  define k where "k = nat (52 - e)"
  have q: "(2::real) powr (of_int e - 52) = 1 / 2 ^ k"
  proof -
    have "of_int e - 52 = - real k"
      using e52 by (simp add: k_def)
    then show ?thesis
      by (simp add: powr_minus powr_realpow inverse_eq_divide)
  qed
  have "x / 2 powr (of_int e - 52) = of_int (n * 2 ^ k)"
    by (simp add: q x_def)
  then have "py_round (x / 2 powr (of_int e - 52)) = n * 2 ^ k"
    by (simp only: py_round_of_int)
  moreover have "x \<noteq> 0"
    using x1 by auto
  ultimately have "round53 x = of_int (n * 2 ^ k) * (1 / 2 ^ k)"
    using e0 by (simp add: round53_def Let_def max_def q flip: e_def)
  then show ?thesis
    by (simp add: x_def)
qed

lemma round53_bound:
  assumes "\<bar>x\<bar> \<le> 2 ^ 53"
  shows "\<bar>round53 x\<bar> \<le> 2 ^ 53 + 1"
proof (cases "x = 0")
  case True
  then show ?thesis by (simp add: round53_def)
next
  case False
  define e where "e = max \<lfloor>log 2 \<bar>x\<bar>\<rfloor> (- 1022)"
  define q :: real where "q = 2 powr (of_int e - 52)"
  have "log 2 \<bar>x\<bar> \<le> 53"
    using False assms by (simp add: log_le_iff powr_numeral)
  then have "e \<le> 53"
    unfolding e_def by (simp add: floor_le_iff)
  then have "q \<le> 2 powr 1"
    unfolding q_def by (intro powr_mono) auto
  then have q2: "q \<le> 2" by simp
  have q0: "0 < q" by (simp add: q_def)
  have r: "round53 x = of_int (py_round (x / q)) * q"
    using False by (simp add: round53_def Let_def e_def q_def)
  have "\<bar>of_int (py_round (x / q)) - x / q\<bar> \<le> 1 / 2"
    by (rule py_round_near)
  then have "\<bar>of_int (py_round (x / q)) - x / q\<bar> * q \<le> 1 / 2 * q"
    using q0 by (intro mult_right_mono) auto
  moreover have "of_int (py_round (x / q)) * q - x = (of_int (py_round (x / q)) - x / q) * q"
    using q0 by (simp add: field_simps)
  then have "\<bar>of_int (py_round (x / q)) * q - x\<bar> = \<bar>of_int (py_round (x / q)) - x / q\<bar> * q"
    using q0 by (simp only: abs_mult)
  ultimately have "\<bar>of_int (py_round (x / q)) * q - x\<bar> \<le> q / 2"
    by simp
  then show ?thesis
    using r q2 assms by linarith
qed

lemma to_f64_small:
  assumes "\<bar>x\<bar> \<le> 2 ^ 53"
  shows "to_f64 x = Fin (round53 x)"
proof -
  have "(2::real) ^ 53 + 1 < 2 ^ 1024"
    by simp
  then have "\<bar>round53 x\<bar> < 2 ^ 1024"
    using round53_bound [OF assms] by linarith
  then show ?thesis
    by (auto simp: to_f64_def Let_def)
qed

lemma f64_of_int_exact:
  assumes "\<bar>n\<bar> < 2 ^ 53"
  shows "f64_of_int n = Inr (of_int n)"
proof -
  have "real_of_int \<bar>n\<bar> \<le> real_of_int (2 ^ 53)"
    using assms by (simp only: of_int_le_iff)
  then have "\<bar>real_of_int n\<bar> \<le> 2 ^ 53"
    by simp
  then show ?thesis
    by (simp add: f64_of_int_def to_f64_small round53_of_int [OF assms])
qed

lemma round53_0: "round53 0 = 0"
  by (simp add: round53_def)

lemma round53_5: "round53 5 = 5"
  using round53_of_int [of 5] by simp

lemma round53_10: "round53 10 = 10"
  using round53_of_int [of 10] by simp

lemma round53_035_10: "round53 (3152519739159347 / 2 ^ 53 * 10) = 7 / 2"
  by (subst round53_exponent [where e = 1])
     (simp_all add: py_round_def Let_def powr_numeral powr_neg_numeral)

lemma round53_07_45: "round53 (3152519739159347 / 2 ^ 52 * 45) = 8866461766385663 / 2 ^ 48"
  by (subst round53_exponent [where e = 4])
     (simp_all add: py_round_def Let_def powr_numeral powr_neg_numeral)

lemma to_f64_1e308: "to_f64 (5010420900022432 * 2 ^ 971) = Fin (5010420900022432 * 2 ^ 971)"
proof -
  have "round53 (5010420900022432 * 2 ^ 971) = 5010420900022432 * 2 ^ 971"
    by (rule round53_multiple [where e = 1023 and m = 5010420900022432])
       (simp_all add: powr_numeral)
  then show ?thesis
    by (simp add: to_f64_def Let_def)
qed

lemma to_f64_2e308: "to_f64 (5010420900022432 * 2 ^ 971 + 5010420900022432 * 2 ^ 971) = PInf"
proof -
  have "round53 (5010420900022432 * 2 ^ 971 + 5010420900022432 * 2 ^ 971)
          = 5010420900022432 * 2 ^ 971 + 5010420900022432 * 2 ^ 971"
    by (rule round53_multiple [where e = 1024 and m = 5010420900022432])
       (simp_all add: powr_numeral)
  then show ?thesis
    by (simp add: to_f64_def Let_def)
qed

section \<open>Properties of normalize\_probabilities\<close>

lemma sum_list_map_divide:
  fixes p :: "real list"
  shows "sum_list (map (\<lambda>x. x / c) p) = sum_list p / c"
  by (induction p) (simp_all add: add_divide_distrib)

lemma normalize_probabilities_Inr:
  "normalize_probabilities p = Inr out \<longleftrightarrow>
     list_all (\<lambda>x. 0 \<le> x) p \<and> 0 < sum_list p \<and> out = map (\<lambda>x. x / sum_list p) p"
  by (auto simp: normalize_probabilities_def Let_def)

lemma normalize_probabilities_sum:
  assumes "normalize_probabilities p = Inr out"
  shows "sum_list out = 1"
  using assms by (simp add: normalize_probabilities_Inr sum_list_map_divide)

lemma normalize_probabilities_nonneg:
  assumes "normalize_probabilities p = Inr out"
  shows "list_all (\<lambda>x. 0 \<le> x) out"
  using assms by (auto simp: normalize_probabilities_Inr list_all_iff)

lemma normalize_probabilities_length:
  assumes "normalize_probabilities p = Inr out"
  shows "length out = length p"
  using assms by (simp add: normalize_probabilities_Inr)

text \<open>
  C9, as amended. Over exact arithmetic, for a list of non-negative numbers with
  positive sum, normalize\_probabilities returns a list of the same length whose
  elements sum to 1, each element being the input element divided by the input sum, so
  that the pairwise ratios of the input are kept (in cross-multiplied form); an input
  with a negative element or with a sum that is not positive fails.
\<close>

theorem normalize_probabilities_spec:
  "(list_all (\<lambda>x. 0 \<le> x) p \<and> 0 < sum_list p \<longrightarrow>
      (\<exists>out. normalize_probabilities p = Inr out \<and> length out = length p \<and>
             sum_list out = 1 \<and>
             (\<forall>i<length p. out ! i = p ! i / sum_list p) \<and>
             (\<forall>i<length p. \<forall>j<length p. out ! i * p ! j = out ! j * p ! i)))
   \<and> ((\<exists>x\<in>set p. x < 0) \<or> \<not> 0 < sum_list p \<longrightarrow>
        normalize_probabilities p = Inl AssertionError)"
proof (intro conjI impI)
  assume ok: "list_all (\<lambda>x. 0 \<le> x) p \<and> 0 < sum_list p"
  define out where "out = map (\<lambda>x. x / sum_list p) p"
  have r: "normalize_probabilities p = Inr out"
    using ok by (simp add: normalize_probabilities_Inr out_def)
  have "sum_list out = 1"
    using r by (rule normalize_probabilities_sum)
  moreover have "length out = length p"
    by (simp add: out_def)
  moreover have "\<forall>i<length p. out ! i = p ! i / sum_list p"
    by (simp add: out_def)
  moreover have "\<forall>i<length p. \<forall>j<length p. out ! i * p ! j = out ! j * p ! i"
    by (simp add: out_def)
  ultimately show "\<exists>out. normalize_probabilities p = Inr out \<and> length out = length p \<and>
             sum_list out = 1 \<and>
             (\<forall>i<length p. out ! i = p ! i / sum_list p) \<and>
             (\<forall>i<length p. \<forall>j<length p. out ! i * p ! j = out ! j * p ! i)"
    using r by blast
next
  assume bad: "(\<exists>x\<in>set p. x < 0) \<or> \<not> 0 < sum_list p"
  then show "normalize_probabilities p = Inl AssertionError"
    by (fastforce simp: normalize_probabilities_def Let_def list_all_iff not_le)
qed

theorem normalize_probabilities_spec_witness:
  "normalize_probabilities [1, 3] = Inr [1 / 4, 3 / 4]
   \<and> normalize_probabilities [- 1, 2] = Inl AssertionError
   \<and> normalize_probabilities [0, 0] = Inl AssertionError"
  using normalize_probabilities_spec [of "[1, 3]"]
        normalize_probabilities_spec [of "[- 1, 2]"]
        normalize_probabilities_spec [of "[0, 0]"]
  by (auto simp: nth_Cons' list_eq_iff_nth_eq)

text \<open>
  In binary64 the sum of the two floats 1e308 and 1e308 (each is 5010420900022432 * 2 ^ 971)
  overflows to infinity; the check of a positive sum passes and every quotient is 0. The
  output is [0.0, 0.0]: it does not sum to 1 and its elements are not the input elements
  divided by the input sum.
\<close>

theorem normalize_probabilities_f64_overflow_counterexample:
  "to_f64 (5010420900022432 * 2 ^ 971) = Fin (5010420900022432 * 2 ^ 971)
   \<and> sequential_sum [5010420900022432 * 2 ^ 971, 5010420900022432 * 2 ^ 971] = PInf
   \<and> normalize_probabilities_f64 sequential_sum
        [5010420900022432 * 2 ^ 971, 5010420900022432 * 2 ^ 971] = Inr [Fin 0, Fin 0]"
proof -
  have s: "sequential_sum [5010420900022432 * 2 ^ 971, 5010420900022432 * 2 ^ 971] = PInf"
    by (simp only: sequential_sum_def foldl_Cons foldl_Nil f64_add.simps add_0
          to_f64_1e308 to_f64_2e308)
  have "normalize_probabilities_f64 sequential_sum
        [5010420900022432 * 2 ^ 971, 5010420900022432 * 2 ^ 971] = Inr [Fin 0, Fin 0]"
    unfolding normalize_probabilities_f64_def s by simp
  then show ?thesis
    using s to_f64_1e308 by simp
qed

text \<open>
  C10. normalize\_probabilities is idempotent over exact arithmetic: on a list of
  non-negative numbers with positive sum it succeeds, and applying it to its own output
  returns that output unchanged.
\<close>

theorem normalize_probabilities_idempotent:
  assumes "list_all (\<lambda>x. 0 \<le> x) p" and "0 < sum_list p"
  shows "\<exists>out. normalize_probabilities p = Inr out \<and> normalize_probabilities out = Inr out"
proof -
  define out where "out = map (\<lambda>x. x / sum_list p) p"
  have r: "normalize_probabilities p = Inr out"
    using assms by (simp add: normalize_probabilities_Inr out_def)
  have s: "sum_list out = 1"
    using r by (rule normalize_probabilities_sum)
  have n: "list_all (\<lambda>x. 0 \<le> x) out"
    using r by (rule normalize_probabilities_nonneg)
  have "normalize_probabilities out = Inr out"
    using s n by (simp add: normalize_probabilities_Inr)
  with r show ?thesis by blast
qed

theorem normalize_probabilities_idempotent_witness:
  "normalize_probabilities [2, 6] = Inr [1 / 4, 3 / 4]
   \<and> normalize_probabilities [1 / 4, 3 / 4] = Inr [1 / 4, 3 / 4]"
  using normalize_probabilities_idempotent [of "[2, 6]"]
  by (auto simp: normalize_probabilities_Inr)

section \<open>Rank rotation\<close>

lemma get_next_rank_default:
  "rank_counter self = ItertoolsCountClass \<Longrightarrow> world_size (distributed_config (distributed self)) \<noteq> 0 \<Longrightarrow>
   get_next_rank self = (Inr 0, self)"
  by (simp add: get_next_rank_def py_mod_def)

text \<open>
  C2. Rank rotation asks that eight successive calls of get\_next\_rank with world
  size 4 yield 0, 1, 2, 3, 0, 1, 2, 3. On a SamplingData built with the default rank
  counter every call makes a new counter and reads its first value: the eight calls
  yield 0 each, also on a copy made by update\_config.
\<close>

theorem get_next_rank_calls_zero:
  "get_next_rank_calls 8
     \<lparr>config = \<lparr>seed = 784569\<rparr>, parameters = \<lparr>num_samples = 100\<rparr>,
      cache_directory = None,
      distributed = \<lparr>distributed_config = \<lparr>world_size = 4\<rparr>\<rparr>,
      dataset_name = ''dataset'', rank_counter = ItertoolsCountClass\<rparr>
   = [Inr 0, Inr 0, Inr 0, Inr 0, Inr 0, Inr 0, Inr 0, Inr 0]
   \<and> get_next_rank_calls 8
     (update_config
       \<lparr>config = \<lparr>seed = 784569\<rparr>, parameters = \<lparr>num_samples = 100\<rparr>,
        cache_directory = None,
        distributed = \<lparr>distributed_config = \<lparr>world_size = 4\<rparr>\<rparr>,
        dataset_name = ''dataset'', rank_counter = ItertoolsCountClass\<rparr>
       \<lparr>update_seed = Some 1\<rparr>)
   = [Inr 0, Inr 0, Inr 0, Inr 0, Inr 0, Inr 0, Inr 0, Inr 0]"
  by (simp add: eval_nat_numeral get_next_rank_def py_mod_def update_config_def)

section \<open>Parameter override\<close>

text \<open>
  C7. The sampling data handed to the wrapped dataset of a parameter-override node is
  update\_config of the node's override applied to the incoming data: its config has
  the seed replaced when the override sets one and is the parent's config otherwise,
  and parameters, cache directory, distributed information, dataset name and rank
  counter are those of the incoming data. update\_config is a function of its
  arguments: it returns a new value and leaves the incoming one as it is.
\<close>

theorem update_config_frame:
  "config (update_config self u) =
      (case update_seed u of None \<Rightarrow> config self | Some s \<Rightarrow> (config self)\<lparr>seed := s\<rparr>)
   \<and> parameters (update_config self u) = parameters self
   \<and> cache_directory (update_config self u) = cache_directory self
   \<and> distributed (update_config self u) = distributed self
   \<and> dataset_name (update_config self u) = dataset_name self
   \<and> rank_counter (update_config self u) = rank_counter self
   \<and> SampledDatasetUpdateConfig_build_and_sample build_and_sample node self
        = build_and_sample (update_dataset node) (update_config self (sampling node))"
  by (simp add: update_config_def from_dict_update_def to_dict_def
        SampledDatasetUpdateConfig_build_and_sample_def split: option.split)

section \<open>Slices\<close>

lemma DatasetSliceConfig_build_Inr:
  assumes b: "\<bar>slice_begin self\<bar> \<le> 1" and e: "\<bar>slice_end self\<bar> \<le> 1"
    and l: "len (build (dataset self)) < 2 ^ 53"
  shows "DatasetSliceConfig_build build str self =
           Inr \<lparr>slice_name = indexed_name (build (dataset self)) @ ''_'' @ str (slice_begin self)
                                 @ ''_'' @ str (slice_end self),
                slice_dataset = build (dataset self),
                slice_lo = py_round (round53 (slice_begin self * of_int (len (build (dataset self))))),
                slice_hi = py_round (round53 (slice_end self * of_int (len (build (dataset self)))))\<rparr>"
proof -
  let ?L = "len (build (dataset self))"
  have l0: "0 \<le> ?L"
    by (simp add: len_def)
  then have labs: "\<bar>?L\<bar> < 2 ^ 53"
    using l by simp
  have "real_of_int ?L \<le> real_of_int (2 ^ 53)"
    using l by (simp only: of_int_le_iff)
  then have lr: "real_of_int ?L \<le> 2 ^ 53"
    by simp
  have lr0: "0 \<le> real_of_int ?L"
    using l0 by simp
  have bound: "\<bar>c * real_of_int ?L\<bar> \<le> 2 ^ 53" if "\<bar>c\<bar> \<le> 1" for c
  proof -
    have "\<bar>c * real_of_int ?L\<bar> = \<bar>c\<bar> * real_of_int ?L"
      using lr0 by (simp add: abs_mult)
    also have "\<dots> \<le> 1 * real_of_int ?L"
      using that lr0 by (intro mult_right_mono) auto
    finally show ?thesis
      using lr by simp
  qed
  show ?thesis
    by (simp add: DatasetSliceConfig_build_def Let_def f64_of_int_exact [OF labs] f64_mul_def
          to_f64_small [OF bound [OF b]] to_f64_small [OF bound [OF e]] py_round_f64_def)
qed

text \<open>
  C8. Building a slice over a corpus of length L (below 2 ^ 53, with begin and end of
  magnitude at most 1) succeeds with the bounds lo = round(begin * L) and
  hi = round(end * L) and a slice of length hi - lo, where the product is the binary64
  product and round returns a nearest integer and the even one at a tie (2.5 goes to 2,
  3.5 to 4). A 10-element corpus sliced with begin 0, end 0.5 has length 5 and its
  element 0 is element 0 of the corpus; sliced with begin 0.5, end 1 its element 0 is
  element 5 of the corpus. With begin the float 0.35 (3152519739159347 / 2 ^ 53) the
  product with 10 is the float 3.5 and lo is 4; with begin the float 0.7
  (3152519739159347 / 2 ^ 52) and a 45-element corpus lo is 31.
\<close>

theorem DatasetSliceConfig_build_bounds:
  "(\<bar>slice_begin self\<bar> \<le> 1 \<and> \<bar>slice_end self\<bar> \<le> 1 \<and> len (build (dataset self)) < 2 ^ 53 \<longrightarrow>
      (\<exists>s. DatasetSliceConfig_build build str self = Inr s
         \<and> slice_dataset s = build (dataset self)
         \<and> slice_lo s = py_round (round53 (slice_begin self * of_int (len (build (dataset self)))))
         \<and> slice_hi s = py_round (round53 (slice_end self * of_int (len (build (dataset self)))))
         \<and> slice_len s = slice_hi s - slice_lo s))
   \<and> \<bar>of_int (py_round x) - x\<bar> \<le> 1 / 2
   \<and> (\<bar>of_int (py_round x) - x\<bar> < 1 / 2 \<or> even (py_round x))
   \<and> py_round (5 / 2) = 2 \<and> py_round (7 / 2) = 4
   \<and> (\<exists>s. DatasetSliceConfig_build
              (\<lambda>d. \<lparr>indexed_name = ''corpus'', samples = [10, 11, 12, 13, 14, 15, 16, 17, 18, 19 :: nat]\<rparr>)
              str \<lparr>dataset = (), slice_begin = 0, slice_end = 1 / 2\<rparr> = Inr s
          \<and> slice_lo s = 0 \<and> slice_hi s = 5 \<and> slice_len s = 5 \<and> slice_get s 0 = Some 10)
   \<and> (\<exists>s. DatasetSliceConfig_build
              (\<lambda>d. \<lparr>indexed_name = ''corpus'', samples = [10, 11, 12, 13, 14, 15, 16, 17, 18, 19 :: nat]\<rparr>)
              str \<lparr>dataset = (), slice_begin = 1 / 2, slice_end = 1\<rparr> = Inr s
          \<and> slice_lo s = 5 \<and> slice_hi s = 10 \<and> slice_get s 0 = Some 15)
   \<and> (\<exists>s. DatasetSliceConfig_build
              (\<lambda>d. \<lparr>indexed_name = ''corpus'', samples = [10, 11, 12, 13, 14, 15, 16, 17, 18, 19 :: nat]\<rparr>)
              str \<lparr>dataset = (), slice_begin = 3152519739159347 / 2 ^ 53, slice_end = 1\<rparr> = Inr s
          \<and> slice_lo s = 4 \<and> slice_hi s = 10)
   \<and> (\<exists>s. DatasetSliceConfig_build
              (\<lambda>d. \<lparr>indexed_name = ''corpus'', samples = replicate 45 (0 :: nat)\<rparr>)
              str \<lparr>dataset = (), slice_begin = 3152519739159347 / 2 ^ 52, slice_end = 1\<rparr> = Inr s
          \<and> slice_lo s = 31 \<and> slice_hi s = 45)"
proof -
  let ?c10 = "\<lambda>d :: unit. \<lparr>indexed_name = ''corpus'', samples = [10, 11, 12, 13, 14, 15, 16, 17, 18, 19 :: nat]\<rparr>"
  let ?c45 = "\<lambda>d :: unit. \<lparr>indexed_name = ''corpus'', samples = replicate 45 (0 :: nat)\<rparr>"
  have gen: "\<exists>s. DatasetSliceConfig_build build str self = Inr s
         \<and> slice_dataset s = build (dataset self)
         \<and> slice_lo s = py_round (round53 (slice_begin self * of_int (len (build (dataset self)))))
         \<and> slice_hi s = py_round (round53 (slice_end self * of_int (len (build (dataset self)))))
         \<and> slice_len s = slice_hi s - slice_lo s"
    if "\<bar>slice_begin self\<bar> \<le> 1 \<and> \<bar>slice_end self\<bar> \<le> 1 \<and> len (build (dataset self)) < 2 ^ 53"
    using that by (simp add: DatasetSliceConfig_build_Inr slice_len_def)
  have r: "py_round (5 / 2) = 2" "py_round (7 / 2) = 4" "py_round 0 = 0" "py_round 5 = 5"
    "py_round 10 = 10" "py_round 45 = 45" "py_round (8866461766385663 / 2 ^ 48) = 31"
    by (simp_all add: py_round_def Let_def)
  have e1: "\<exists>s. DatasetSliceConfig_build ?c10 str \<lparr>dataset = (), slice_begin = 0, slice_end = 1 / 2\<rparr> = Inr s
          \<and> slice_lo s = 0 \<and> slice_hi s = 5 \<and> slice_len s = 5 \<and> slice_get s 0 = Some 10"
    by (subst DatasetSliceConfig_build_Inr)
       (simp_all add: len_def round53_0 round53_5 r slice_len_def slice_get_def)
  have e2: "\<exists>s. DatasetSliceConfig_build ?c10 str \<lparr>dataset = (), slice_begin = 1 / 2, slice_end = 1\<rparr> = Inr s
          \<and> slice_lo s = 5 \<and> slice_hi s = 10 \<and> slice_get s 0 = Some 15"
    by (subst DatasetSliceConfig_build_Inr)
       (simp_all add: len_def round53_10 round53_5 r slice_len_def slice_get_def)
  have e3: "\<exists>s. DatasetSliceConfig_build ?c10 str
              \<lparr>dataset = (), slice_begin = 3152519739159347 / 2 ^ 53, slice_end = 1\<rparr> = Inr s
          \<and> slice_lo s = 4 \<and> slice_hi s = 10"
  proof -
    have n: "round53 (15762598695796735 / 4503599627370496) = 7 / 2"
      using round53_035_10 by simp
    show ?thesis
      by (subst DatasetSliceConfig_build_Inr)
         (simp_all add: len_def round53_10 n r)
  qed
  have e4: "\<exists>s. DatasetSliceConfig_build ?c45 str
              \<lparr>dataset = (), slice_begin = 3152519739159347 / 2 ^ 52, slice_end = 1\<rparr> = Inr s
          \<and> slice_lo s = 31 \<and> slice_hi s = 45"
  proof -
    have n: "round53 (141863388262170615 / 4503599627370496) = 8866461766385663 / 281474976710656"
      using round53_07_45 by simp
    have m: "py_round (8866461766385663 / 281474976710656) = 31"
      by (simp add: py_round_def Let_def)
    have k: "round53 45 = 45"
      using round53_of_int [of 45] by simp
    show ?thesis
      by (subst DatasetSliceConfig_build_Inr)
         (simp_all add: len_def n m k r)
  qed
  show ?thesis
    using gen r(1,2) e1 e2 e3 e4 py_round_near [of x] py_round_tie [of x] by blast
qed

theorem DatasetSliceConfig_build_bounds_witness:
  "\<exists>s. DatasetSliceConfig_build
          (\<lambda>d. \<lparr>indexed_name = ''corpus'', samples = [10, 11, 12, 13, 14, 15, 16, 17, 18, 19 :: nat]\<rparr>)
          (\<lambda>x. ''x'') \<lparr>dataset = (), slice_begin = 1 / 4, slice_end = 3 / 4\<rparr> = Inr s
      \<and> slice_lo s = py_round (round53 (1 / 4 * 10))
      \<and> slice_hi s = py_round (round53 (3 / 4 * 10))
      \<and> slice_len s = slice_hi s - slice_lo s"
  using DatasetSliceConfig_build_bounds [of "\<lparr>dataset = (), slice_begin = 1 / 4, slice_end = 3 / 4\<rparr>"
      "\<lambda>d. \<lparr>indexed_name = ''corpus'', samples = [10, 11, 12, 13, 14, 15, 16, 17, 18, 19 :: nat]\<rparr>"
      "\<lambda>x. ''x''" 0]
  by (simp add: len_def) blast

text \<open>
  C1, as amended. The construction-time validation of a DatasetSliceConfig does not
  look at begin and end: its outcome is decided by the nested dataset alone, and it is
  the same for every pair of bounds.
\<close>

theorem DatasetSliceConfig_validate_ignores_range:
  "DatasetSliceConfig_validate nested self
     = (if nested (dataset self) then Inr self else Inl ValidationError)
   \<and> DatasetSliceConfig_validate nested (self\<lparr>slice_begin := b, slice_end := e\<rparr>)
     = map_sum id (\<lambda>c. c\<lparr>slice_begin := b, slice_end := e\<rparr>) (DatasetSliceConfig_validate nested self)"
  by (simp add: DatasetSliceConfig_validate_def Config_validate_def)

text \<open>
  The configuration with begin 0.6 and end 0.4 passes validation.
\<close>

theorem DatasetSliceConfig_no_range_check_counterexample:
  "DatasetSliceConfig_validate always_valid \<lparr>dataset = (), slice_begin = 6 / 10, slice_end = 4 / 10\<rparr>
     = Inr \<lparr>dataset = (), slice_begin = 6 / 10, slice_end = 4 / 10\<rparr>"
  by (simp add: DatasetSliceConfig_validate_def Config_validate_def always_valid_def)

section \<open>Blended datasets: validation\<close>

lemma BlendedDatasetConfig_validate_Inr:
  "BlendedDatasetConfig_validate nested self = Inr self' \<longleftrightarrow>
     (\<exists>w. normalize_probabilities (weights self) = Inr w \<and> self' = self\<lparr>weights := w\<rparr>
        \<and> list_all nested (datasets self) \<and> 2 \<le> length (datasets self)
        \<and> length (datasets self) = length w)"
  by (auto simp: BlendedDatasetConfig_validate_def Config_validate_def split: sum.splits)

lemma validated_weights:
  assumes "BlendedDatasetConfig_validate nested self = Inr self'"
  shows "list_all (\<lambda>x. 0 \<le> x) (weights self')" and "sum_list (weights self') = 1"
    and "2 \<le> length (weights self')" and "length (datasets self') = length (weights self')"
    and "legacy self' = legacy self" and "datasets self' = datasets self"
  using assms
  by (auto simp: BlendedDatasetConfig_validate_Inr dest: normalize_probabilities_sum normalize_probabilities_nonneg)

text \<open>
  C3, as amended. For every BlendedDatasetConfig that passes validation, every stored
  weight is non-negative, the weights sum to 1 and there are at least 2 of them.
\<close>

theorem BlendedDatasetConfig_validated_weights:
  assumes "BlendedDatasetConfig_validate nested self = Inr self'"
  shows "(\<forall>w\<in>set (weights self'). 0 \<le> w) \<and> sum_list (weights self') = 1
         \<and> 2 \<le> length (weights self')"
  using validated_weights(1-3) [OF assms] by (simp add: list_all_iff)

theorem BlendedDatasetConfig_validated_weights_witness:
  "BlendedDatasetConfig_validate always_valid
      \<lparr>name = ''blended'', datasets = [(), ()], weights = [1, 3], legacy = False\<rparr>
     = Inr \<lparr>name = ''blended'', datasets = [(), ()], weights = [1 / 4, 3 / 4], legacy = False\<rparr>
   \<and> list_all (\<lambda>w. 0 \<le> w) [1 / 4, 3 / 4 :: real] \<and> sum_list [1 / 4, 3 / 4 :: real] = 1
   \<and> 2 \<le> length [1 / 4, 3 / 4 :: real]"
proof -
  have v: "BlendedDatasetConfig_validate always_valid
      \<lparr>name = ''blended'', datasets = [(), ()], weights = [1, 3], legacy = False\<rparr>
     = Inr \<lparr>name = ''blended'', datasets = [(), ()], weights = [1 / 4, 3 / 4], legacy = False\<rparr>"
    by (simp add: BlendedDatasetConfig_validate_def Config_validate_def
          normalize_probabilities_def always_valid_def)
  show ?thesis
    using v BlendedDatasetConfig_validated_weights [OF v] by simp
qed

text \<open>
  The weights 0 and 1 pass validation and are stored as they are: the first stored
  weight is not strictly positive.
\<close>

theorem BlendedDatasetConfig_weights_counterexample:
  "BlendedDatasetConfig_validate always_valid
      \<lparr>name = ''blended'', datasets = [(), ()], weights = [0, 1], legacy = False\<rparr>
     = Inr \<lparr>name = ''blended'', datasets = [(), ()], weights = [0, 1], legacy = False\<rparr>
   \<and> \<not> 0 < weights \<lparr>name = ''blended'', datasets = [(), ()], weights = [0, 1], legacy = False\<rparr> ! 0"
  by (simp add: BlendedDatasetConfig_validate_def Config_validate_def normalize_probabilities_def always_valid_def)

text \<open>
  C4. The validation of a BlendedDatasetConfig succeeds exactly when the lists of
  datasets and weights have the same length, at least 2, every weight is non-negative,
  the weights have a positive sum and the nested datasets are valid; in every other
  case it fails, in the validation itself.
\<close>

theorem BlendedDatasetConfig_validate_iff:
  "(\<exists>self'. BlendedDatasetConfig_validate nested self = Inr self') \<longleftrightarrow>
     (length (datasets self) = length (weights self) \<and> 2 \<le> length (weights self)
      \<and> (\<forall>w\<in>set (weights self). 0 \<le> w) \<and> 0 < sum_list (weights self)
      \<and> list_all nested (datasets self))"
  by (auto simp: BlendedDatasetConfig_validate_Inr normalize_probabilities_Inr list_all_iff)

theorem BlendedDatasetConfig_validate_iff_witness:
  "(\<exists>self'. BlendedDatasetConfig_validate always_valid
      \<lparr>name = ''blended'', datasets = [(), ()], weights = [1, 3], legacy = False\<rparr> = Inr self')
   \<and> \<not> (\<exists>self'. BlendedDatasetConfig_validate always_valid
      \<lparr>name = ''blended'', datasets = [()], weights = [3 / 10, 3 / 10], legacy = False\<rparr> = Inr self')
   \<and> \<not> (\<exists>self'. BlendedDatasetConfig_validate always_valid
      \<lparr>name = ''blended'', datasets = [(), ()], weights = [- 1, 3], legacy = False\<rparr> = Inr self')
   \<and> \<not> (\<exists>self'. BlendedDatasetConfig_validate always_valid
      \<lparr>name = ''blended'', datasets = [(), ()], weights = [0, 0], legacy = False\<rparr> = Inr self')"
  using BlendedDatasetConfig_validate_iff [of always_valid
      "\<lparr>name = ''blended'', datasets = [(), ()], weights = [1, 3], legacy = False\<rparr>"]
    BlendedDatasetConfig_validate_iff [of always_valid
      "\<lparr>name = ''blended'', datasets = [()], weights = [3 / 10, 3 / 10], legacy = False\<rparr>"]
    BlendedDatasetConfig_validate_iff [of always_valid
      "\<lparr>name = ''blended'', datasets = [(), ()], weights = [- 1, 3], legacy = False\<rparr>"]
    BlendedDatasetConfig_validate_iff [of always_valid
      "\<lparr>name = ''blended'', datasets = [(), ()], weights = [0, 0], legacy = False\<rparr>"]
  by (simp add: always_valid_def)

section \<open>Blended datasets: branch requests\<close>

lemma branch_sampling_Inr:
  "branch_sampling count lg s i w = Inr s' \<longleftrightarrow>
     (\<exists>n. count lg w (num_samples (parameters s)) = Inr n \<and>
        s' = s\<lparr>parameters := (parameters s)\<lparr>num_samples := n\<rparr>,
                 config := (config s)\<lparr>seed := seed (config s) + int i * (if lg then 0 else 697)\<rparr>\<rparr>)"
  by (auto simp: branch_sampling_def split: sum.splits)

lemma branch_requests_Inr:
  "branch_requests count lg s k ds ws = Inr rs \<Longrightarrow>
     length rs = length ds \<and> length ws = length ds \<and>
     (\<forall>i<length ds. fst (rs ! i) = ds ! i
         \<and> branch_sampling count lg s (k + i) (ws ! i) = Inr (snd (rs ! i)))"
proof (induction count lg s k ds ws arbitrary: rs rule: branch_requests.induct)
  case (1 count lg s k)
  then show ?case by simp
next
  case (2 count lg s k d ds w ws)
  from "2.prems" obtain s' rs' where
    h: "branch_sampling count lg s k w = Inr s'"
    and t: "branch_requests count lg s (Suc k) ds ws = Inr rs'"
    and r: "rs = (d, s') # rs'"
    by (auto split: sum.splits)
  from "2.IH" [OF h t] have ih: "length rs' = length ds" "length ws = length ds"
    "\<forall>i<length ds. fst (rs' ! i) = ds ! i
        \<and> branch_sampling count lg s (Suc k + i) (ws ! i) = Inr (snd (rs' ! i))"
    by auto
  show ?case
  proof (intro conjI allI impI)
    fix i assume "i < length (d # ds)"
    then show "fst (rs ! i) = (d # ds) ! i"
      using ih(3) r by (cases i) auto
  next
    fix i assume "i < length (d # ds)"
    then show "branch_sampling count lg s (k + i) ((w # ws) ! i) = Inr (snd (rs ! i))"
      using ih(3) r h by (cases i) auto
  qed (simp_all add: r ih)
qed simp_all

lemma branch_requests_total:
  "length ds = length ws \<Longrightarrow>
   (\<forall>w\<in>set ws. \<exists>n. count lg w (num_samples (parameters s)) = Inr n) \<Longrightarrow>
     \<exists>rs. branch_requests count lg s k ds ws = Inr rs"
proof (induction count lg s k ds ws rule: branch_requests.induct)
  case (2 count lg s k d ds w ws)
  then obtain n where "count lg w (num_samples (parameters s)) = Inr n"
    by (meson list.set_intros(1))
  then obtain s' where "branch_sampling count lg s k w = Inr s'"
    by (simp add: branch_sampling_def)
  moreover from 2 obtain rs where "branch_requests count lg s (Suc k) ds ws = Inr rs"
    using calculation by fastforce
  ultimately show ?case by simp
qed simp_all









text \<open>
  C6. When a Blended node whose lists of datasets and weights have the same length
  resolves, and the sample count of every branch can be computed (whatever arithmetic
  computes it), every branch is resolved, in the order of the datasets, and branch i
  (counted from 0, its dataset is datasets[i]) is resolved with the seed of the
  incoming sampling data plus i * 697, and plus 0 for every branch when legacy is set.
\<close>

theorem BlendedDatasetConfig_branch_seed:
  assumes len: "length (datasets self) = length (weights self)"
    and cnt: "\<forall>w\<in>set (weights self).
                \<exists>n. count (legacy self) w (num_samples (parameters sdata)) = Inr n"
  shows "\<exists>rs. BlendedDatasetConfig_build_and_sample count self sdata = Inr rs
           \<and> length rs = length (datasets self)
           \<and> (\<forall>i<length rs.
                 fst (rs ! i) = datasets self ! i
                 \<and> seed (config (snd (rs ! i)))
                     = seed (config sdata) + int i * (if legacy self then 0 else 697))"
proof -
  from branch_requests_total [where count = count and lg = "legacy self" and s = sdata
      and k = 0, OF len cnt]
  obtain rs where
    rs: "branch_requests count (legacy self) sdata 0 (datasets self) (weights self) = Inr rs"
    by blast
  note props = branch_requests_Inr [OF rs]
  have "fst (rs ! i) = datasets self ! i
          \<and> seed (config (snd (rs ! i)))
              = seed (config sdata) + int i * (if legacy self then 0 else 697)"
    if i: "i < length rs" for i
  proof -
    have "branch_sampling count (legacy self) sdata (0 + i) (weights self ! i) = Inr (snd (rs ! i))"
      using props i by simp
    then have "seed (config (snd (rs ! i)))
                 = seed (config sdata) + int i * (if legacy self then 0 else 697)"
      by (auto simp: branch_sampling_Inr)
    moreover have "fst (rs ! i) = datasets self ! i"
      using props i by simp
    ultimately show ?thesis by simp
  qed
  then show ?thesis
    unfolding BlendedDatasetConfig_build_and_sample_def
    using rs props by blast
qed

theorem BlendedDatasetConfig_branch_seed_witness:
  "\<exists>rs. BlendedDatasetConfig_build_and_sample branch_num_samples
      \<lparr>name = ''blended'', datasets = [''a'', ''b''], weights = [1 / 4, 3 / 4], legacy = False\<rparr>
      \<lparr>config = \<lparr>seed = 784569\<rparr>, parameters = \<lparr>num_samples = 8\<rparr>,
       cache_directory = None,
       distributed = \<lparr>distributed_config = \<lparr>world_size = 4\<rparr>\<rparr>,
       dataset_name = ''dataset'', rank_counter = ItertoolsCountClass\<rparr> = Inr rs
     \<and> length rs = 2
     \<and> fst (rs ! 0) = ''a'' \<and> seed (config (snd (rs ! 0))) = 784569
     \<and> fst (rs ! 1) = ''b'' \<and> seed (config (snd (rs ! 1))) = 785266"
proof -
  let ?cfg = "\<lparr>name = ''blended'', datasets = [''a'', ''b''], weights = [1 / 4, 3 / 4 :: real],
               legacy = False\<rparr>"
  let ?sd = "\<lparr>config = \<lparr>seed = 784569\<rparr>, parameters = \<lparr>num_samples = 8\<rparr>,
             cache_directory = None,
             distributed = \<lparr>distributed_config = \<lparr>world_size = 4\<rparr>\<rparr>,
             dataset_name = ''dataset'', rank_counter = ItertoolsCountClass\<rparr>"
  have len: "length (datasets ?cfg) = length (weights ?cfg)"
    by simp
  have cnt: "\<forall>w\<in>set (weights ?cfg).
               \<exists>n. branch_num_samples (legacy ?cfg) w (num_samples (parameters ?sd)) = Inr n"
    by (simp add: branch_num_samples_def)
  from BlendedDatasetConfig_branch_seed [where count = branch_num_samples and self = ?cfg
      and sdata = ?sd, OF len cnt]
  obtain rs where rs: "BlendedDatasetConfig_build_and_sample branch_num_samples ?cfg ?sd = Inr rs"
    and l: "length rs = length (datasets ?cfg)"
    and e: "\<forall>i<length rs. fst (rs ! i) = datasets ?cfg ! i
               \<and> seed (config (snd (rs ! i)))
                   = seed (config ?sd) + int i * (if legacy ?cfg then 0 else 697)"
    by blast
  have l2: "length rs = 2"
    using l by simp
  have "fst (rs ! 0) = ''a'' \<and> seed (config (snd (rs ! 0))) = 784569"
    using e [rule_format, of 0] l2 by simp
  moreover have "fst (rs ! 1) = ''b'' \<and> seed (config (snd (rs ! 1))) = 785266"
    using e [rule_format, of 1] l2 by simp
  ultimately show ?thesis
    using rs l2 by blast
qed


end
